theory Spec2Isabelle
  imports Main
begin

section \<open>Singularity recipe generation of EasyBuild (tools/singularity/utilities.py)\<close>

text \<open>
  A shallow embedding of \<^verbatim>\<open>check_bootstrap\<close>, \<^verbatim>\<open>generate_singularity_recipe\<close> and
  \<^verbatim>\<open>check_singularity\<close>. Python 2 byte strings are \<^typ>\<open>string\<close>; a raised exception is
  the \<open>Inl\<close> branch of a sum; the file system, the printed messages and the shell
  commands run through \<^verbatim>\<open>os.system\<close> are fields of an explicit \<open>world\<close> that every
  effectful function receives and returns.
\<close>

subsection \<open>Python string and path primitives\<close>

text \<open>\<^verbatim>\<open>s.split(sep)\<close> for a one-character separator: never empty, one field more than
  there are separators.\<close>

fun str_split :: "string \<Rightarrow> char \<Rightarrow> string list" where
  "str_split [] sep = [[]]"
| "str_split (c # cs) sep =
     (if c = sep then [] # str_split cs sep
      else (case str_split cs sep of
              [] \<Rightarrow> [[c]]
            | field # fields \<Rightarrow> (c # field) # fields))"

text \<open>Index of the first occurrence of a character, if any.\<close>

fun first_index :: "string \<Rightarrow> char \<Rightarrow> nat option" where
  "first_index [] ch = None"
| "first_index (c # cs) ch =
     (if c = ch then Some 0 else map_option Suc (first_index cs ch))"

text \<open>\<^verbatim>\<open>s.find(ch)\<close> and \<^verbatim>\<open>s.rfind(ch)\<close>: the lowest, respectively highest, index of
  \<open>ch\<close>, and -1 when it does not occur.\<close>

definition str_find :: "string \<Rightarrow> char \<Rightarrow> int" where
  "str_find s ch = (case first_index s ch of None \<Rightarrow> - 1 | Some i \<Rightarrow> int i)"

definition str_rfind :: "string \<Rightarrow> char \<Rightarrow> int" where
  "str_rfind s ch =
     (case first_index (rev s) ch of
        None \<Rightarrow> - 1
      | Some i \<Rightarrow> int (length s) - 1 - int i)"

text \<open>The slice \<^verbatim>\<open>s[i:]\<close> for an index \<open>i \<ge> 0\<close>.\<close>

definition slice_from :: "string \<Rightarrow> int \<Rightarrow> string" where
  "slice_from s i = drop (nat i) s"

text \<open>\<^verbatim>\<open>posixpath.join(a, b)\<close>: an absolute second component replaces the first, and a
  separator is inserted unless the first is empty or already ends with one.\<close>

definition os_path_join :: "string \<Rightarrow> string \<Rightarrow> string" where
  "os_path_join a b =
     (if b \<noteq> [] \<and> hd b = CHR ''/'' then b
      else if a = [] \<or> last a = CHR ''/'' then a @ b
      else a @ ''/'' @ b)"

text \<open>The scan of \<^verbatim>\<open>genericpath._splitext\<close>: is there a character other than the dot
  between the start of the last path component and its last dot?\<close>

function splitext_scan :: "string \<Rightarrow> nat \<Rightarrow> nat \<Rightarrow> bool" where
  "splitext_scan p filenameIndex dotIndex =
     (if filenameIndex < dotIndex
      then (if p ! filenameIndex \<noteq> CHR ''.'' then True
            else splitext_scan p (Suc filenameIndex) dotIndex)
      else False)"
  by pat_completeness auto
termination
  by (relation "measure (\<lambda>(p, filenameIndex, dotIndex). dotIndex - filenameIndex)") auto

text \<open>\<^verbatim>\<open>os.path.splitext(p)\<close>: the extension starts at the last dot of the last path
  component, leading dots of that component not counted.\<close>

definition os_path_splitext :: "string \<Rightarrow> string \<times> string" where
  "os_path_splitext p =
     (let sepIndex = str_rfind p CHR ''/'';
          dotIndex = str_rfind p CHR ''.''
      in if dotIndex > sepIndex \<and> splitext_scan p (nat (sepIndex + 1)) (nat dotIndex)
         then (take (nat dotIndex) p, drop (nat dotIndex) p)
         else (p, []))"

subsection \<open>Exceptions, inputs and the outside world\<close>

text \<open>Modelled from the spec: the class \<^verbatim>\<open>EasyBuildError\<close> of \<^verbatim>\<open>easybuild.tools.build_log\<close>
  is not among the sources; every failure "raises a build-error condition carrying a
  human-readable message", and a format string with arguments is filled in with them. The
  other constructors are the built-in exceptions the three functions can run into, with
  the message Python 2 gives them.\<close>

datatype error =
    EasyBuildError string
  | NameError string
  | TypeError string
  | IndexError string

text \<open>An element of \<^verbatim>\<open>osdependencies\<close>: a package name, or a tuple of alternatives.\<close>

datatype osdep = Package string | Alternatives "string list"

text \<open>The fields read from \<^verbatim>\<open>ordered_ecs[0]['ec']\<close>.\<close>

record easyconfig =
  ec_name :: string
  ec_version :: string
  ec_versionsuffix :: string
  ec_toolchain_name :: string
  ec_toolchain_version :: string
  ec_osdependencies :: "osdep list"

text \<open>Modelled from the spec: the configuration accessors \<^verbatim>\<open>build_option\<close>,
  \<^verbatim>\<open>singularity_path\<close> and \<^verbatim>\<open>get_module_naming_scheme\<close> of \<^verbatim>\<open>easybuild.tools.config\<close>
  are given by the values they return; an option that is not set is \<open>None\<close>.\<close>

record build_options =
  imagename :: "string option"
  imageformat :: "string option"
  buildimage :: bool
  singularity_path :: string
  module_naming_scheme :: string

text \<open>Modelled from the spec: the helper \<^verbatim>\<open>which\<close> of \<^verbatim>\<open>easybuild.tools.filetools\<close>
  "locates the external builder executable on the search path"; \<open>which_singularity\<close> is
  what \<^verbatim>\<open>which("singularity")\<close> returns (\<open>None\<close> when the builder is absent) and
  \<open>version_stdout\<close> what \<^verbatim>\<open>singularity --version\<close> prints. The other fields are the outside
  world: the working directory, the paths that exist and those that are directories, the
  files written, the messages printed and the shell commands run. Paths are kept as
  absolute strings and compared as strings (no normalisation of dots or links): a
  relative path is joined to the working directory.\<close>

record world =
  cwd :: string
  existing :: "string set"
  directories :: "string set"
  which_singularity :: "string option"
  version_stdout :: string
  written :: "(string \<times> string) list"
  messages :: "string list"
  commands :: "string list"

definition os_path_exists :: "world \<Rightarrow> string \<Rightarrow> bool" where
  "os_path_exists w p = (os_path_join (cwd w) p \<in> existing w)"

definition os_path_isdir :: "world \<Rightarrow> string \<Rightarrow> bool" where
  "os_path_isdir w p = (os_path_join (cwd w) p \<in> directories w)"

text \<open>Modelled from the spec: \<^verbatim>\<open>change_dir\<close>, \<^verbatim>\<open>write_file\<close> (both of
  \<^verbatim>\<open>easybuild.tools.filetools\<close>) and \<^verbatim>\<open>print_msg\<close> are the persistence steps "changing
  into the target directory and writing the file" and the progress message. The written
  file exists afterwards.\<close>

definition change_dir :: "string \<Rightarrow> world \<Rightarrow> world" where
  "change_dir path w = w\<lparr>cwd := os_path_join (cwd w) path\<rparr>"

definition write_file :: "string \<Rightarrow> string \<Rightarrow> world \<Rightarrow> world" where
  "write_file path txt w =
     w\<lparr>existing := insert (os_path_join (cwd w) path) (existing w),
       written := written w @ [(os_path_join (cwd w) path, txt)]\<rparr>"

definition print_msg :: "string \<Rightarrow> world \<Rightarrow> world" where
  "print_msg msg w = w\<lparr>messages := messages w @ [msg]\<rparr>"

text \<open>\<^verbatim>\<open>os.system(cmd)\<close>: the command is run; its exit status is not looked at.\<close>

definition os_system :: "string \<Rightarrow> world \<Rightarrow> world" where
  "os_system cmd w = w\<lparr>commands := commands w @ [cmd]\<rparr>"

text \<open>\<^verbatim>\<open>xs[i]\<close>, raising \<^verbatim>\<open>IndexError\<close> out of range.\<close>

definition list_get :: "'a list \<Rightarrow> nat \<Rightarrow> error + 'a" where
  "list_get xs i =
     (if i < length xs then Inr (xs ! i) else Inl (IndexError ''list index out of range''))"

subsection \<open>check_bootstrap (lines 50-74)\<close>

definition DOCKER :: string where "DOCKER = ''docker''"
definition LOCALIMAGE :: string where "LOCALIMAGE = ''localimage''"
definition SHUB :: string where "SHUB = ''shub''"

definition SINGULARITY_BOOTSTRAP_TYPES :: "string list" where
  "SINGULARITY_BOOTSTRAP_TYPES = [DOCKER, LOCALIMAGE, SHUB]"

text \<open>\<^verbatim>\<open>sep.join(xs)\<close>.\<close>

fun str_join :: "string \<Rightarrow> string list \<Rightarrow> string" where
  "str_join sep [] = []"
| "str_join sep [x] = x"
| "str_join sep (x # y # ys) = x @ sep @ str_join sep (y # ys)"

definition bootstrap_format_error :: string where
  "bootstrap_format_error = str_join ''\<newline>''
     [''Invalid Format for --singularity-bootstrap, must be one of the following:'',
      '''',
      ''--singularity-bootstrap localimage:/path/to/image'',
      ''--singularity-bootstrap shub:<image>:<tag>'',
      ''--singularity-bootstrap docker:<image>:<tag>'']"

text \<open>The option is \<open>None\<close> when it was not given; \<^verbatim>\<open>if singularity_bootstrap:\<close> is false
  for \<open>None\<close> and for the empty string.\<close>

definition check_bootstrap :: "string option \<Rightarrow> error + (string \<times> string list)" where
  "check_bootstrap singularity_bootstrap =
     (case singularity_bootstrap of
        None \<Rightarrow> Inl (EasyBuildError ''--singularity-bootstrap must be specified'')
      | Some s \<Rightarrow>
          if s = [] then Inl (EasyBuildError ''--singularity-bootstrap must be specified'')
          else
            (let bootstrap_specs = str_split s CHR '':'' in
             if length bootstrap_specs > 3 \<or> length bootstrap_specs \<le> 1
             then Inl (EasyBuildError bootstrap_format_error)
             else
               (case list_get bootstrap_specs 0 of
                  Inl e \<Rightarrow> Inl e
                | Inr bootstrap_type \<Rightarrow>
                    if bootstrap_type \<notin> set SINGULARITY_BOOTSTRAP_TYPES
                    then Inl (EasyBuildError (''bootstrap type must be one of '' @
                                str_join '', '' SINGULARITY_BOOTSTRAP_TYPES))
                    else Inr (bootstrap_type, bootstrap_specs))))"

subsection \<open>generate_singularity_recipe (lines 77-269)\<close>

text \<open>Lines 109-129: the base image of a \<open>localimage\<close> bootstrap must exist and carry one of
  the two image extensions. The name \<^verbatim>\<open>EaasyBuildError\<close> on line 119 is bound nowhere in
  the module, so evaluating it raises \<^verbatim>\<open>NameError\<close>. For the other bootstrap types the
  second field is read (\<^verbatim>\<open>bootstrap_list[1]\<close>) and nothing is checked.\<close>

definition check_bootstrap_image :: "world \<Rightarrow> string \<Rightarrow> string list \<Rightarrow> error + unit" where
  "check_bootstrap_image w bootstrap_type bootstrap_list =
     (case list_get bootstrap_list 1 of
        Inl e \<Rightarrow> Inl e
      | Inr second \<Rightarrow>
          if bootstrap_type = LOCALIMAGE then
            (let bootstrap_imagepath = second in
             if os_path_exists w bootstrap_imagepath then
               (let image_ext = snd (os_path_splitext bootstrap_imagepath) in
                if image_ext = ''.img'' \<or> image_ext = ''.simg'' then Inr ()
                else Inl (NameError ''global name 'EaasyBuildError' is not defined''))
             else Inl (EasyBuildError
                    (''Singularity base image at specified path does not exist: '' @
                     bootstrap_imagepath)))
          else Inr ())"

text \<open>Lines 126-129: the tag is the third field when there are three.\<close>

definition image_tag_of :: "string list \<Rightarrow> string option" where
  "image_tag_of bootstrap_list =
     (if length bootstrap_list = 3 then Some (bootstrap_list ! 2) else None)"

text \<open>Lines 133-144: the bootstrap section.\<close>

definition bootstrap_content :: "string \<Rightarrow> string list \<Rightarrow> error + string" where
  "bootstrap_content bootstrap_type bootstrap_list =
     (case list_get bootstrap_list 1 of
        Inl e \<Rightarrow> Inl e
      | Inr second \<Rightarrow>
          if bootstrap_type = LOCALIMAGE then
            Inr (''Bootstrap: '' @ bootstrap_type @ ''\<newline>'' @
                 ''From: '' @ second @ ''\<newline>'')
          else
            (case image_tag_of bootstrap_list of
               None \<Rightarrow>
                 Inr (''BootStrap: '' @ bootstrap_type @ ''\<newline>'' @
                      ''From: '' @ second @ ''\<newline>'')
             | Some image_tag \<Rightarrow>
                 Inr (''BootStrap: '' @ bootstrap_type @ ''\<newline>'' @
                      ''From: '' @ second @ '':'' @ image_tag @ ''\<newline>'')))"

text \<open>Lines 146-149: the module tree.\<close>

definition modulepath_of :: "string \<Rightarrow> string" where
  "modulepath_of module_scheme =
     (if module_scheme = ''HierarchicalMNS'' then ''/app/modules/all/Core''
      else ''/app/modules/all/'')"

text \<open>Lines 158-159 and 162-163: one install line.\<close>

definition yum_line :: "string \<Rightarrow> string" where
  "yum_line os_package = ''yum install -y '' @ os_package @ '' || true \<newline>''"

text \<open>Lines 158-159: the loop over a flat list. Concatenating a tuple to a string raises
  \<^verbatim>\<open>TypeError\<close>.\<close>

fun install_flat :: "osdep list \<Rightarrow> string \<Rightarrow> error + string" where
  "install_flat [] post_content = Inr post_content"
| "install_flat (Package os_package # rest) post_content =
     install_flat rest (post_content @ yum_line os_package)"
| "install_flat (Alternatives alts # rest) post_content =
     Inl (TypeError ''cannot concatenate 'str' and 'tuple' objects'')"

text \<open>Lines 162-163: the loop over the alternatives of the first element.\<close>

fun install_alternatives :: "string list \<Rightarrow> string \<Rightarrow> string" where
  "install_alternatives [] post_content = post_content"
| "install_alternatives (os_package # rest) post_content =
     install_alternatives rest (post_content @ yum_line os_package)"

text \<open>Lines 154-163.\<close>

definition install_osdeps :: "osdep list \<Rightarrow> string \<Rightarrow> error + string" where
  "install_osdeps osdeps post_content =
     (case osdeps of
        [] \<Rightarrow> Inr post_content
      | Package os_package # rest \<Rightarrow> install_flat osdeps post_content
      | Alternatives alts # rest \<Rightarrow> Inr (install_alternatives alts post_content))"

text \<open>The flags of the build invocation (lines 181 and 204).\<close>

definition eb_line :: "string \<Rightarrow> string \<Rightarrow> string" where
  "eb_line ebfile module_scheme =
     ''eb '' @ ebfile @
     '' --robot --installpath=/app/ --prefix=/scratch --tmpdir=/scratch/tmp  --module-naming-scheme='' @
     module_scheme @ ''\<newline>''"

text \<open>The values the branch on the toolchain (lines 174-207) computes: the easyconfig
  file name, the name of the definition file, and the two sections as extended.\<close>

record toolchain_branch =
  easyconfig_file :: string
  def_file :: string
  post_content :: string
  environment_content :: string

definition toolchain_sections ::
  "easyconfig \<Rightarrow> string \<Rightarrow> string \<Rightarrow> string \<Rightarrow> string \<Rightarrow> toolchain_branch" where
  "toolchain_sections ec module_scheme modulepath post environment =
     (let appname = ec_name ec; appver = ec_version ec; appversuffix = ec_versionsuffix ec;
          tcname = ec_toolchain_name ec; tcver = ec_toolchain_version ec
      in
      if tcname \<noteq> ''dummy'' then
        (let easyconfig = appname @ ''-'' @ appver @ ''-'' @ tcname @ ''-'' @ tcver @
                          appversuffix @ ''.eb'';
             def_file = ''Singularity.'' @ appname @ ''-'' @ appver @ ''-'' @ tcname @ ''-'' @
                        tcver @ appversuffix;
             ebfile = fst (os_path_splitext easyconfig) @ ''.eb'';
             post = post @ eb_line ebfile module_scheme
         in
         if module_scheme = ''HierarchicalMNS'' then
           \<lparr>easyconfig_file = easyconfig, def_file = def_file, post_content = post,
            environment_content = environment @
              ''module use '' @ modulepath @ ''\<newline>'' @
              ''module load '' @ os_path_join tcname tcver @ ''\<newline>'' @
              ''module load '' @ os_path_join appname (appver @ appversuffix) @ ''\<newline>''\<rparr>
         else
           \<lparr>easyconfig_file = easyconfig, def_file = def_file, post_content = post,
            environment_content = environment @
              ''module use '' @ modulepath @ ''\<newline>'' @
              ''module load '' @
              os_path_join appname (appver @ ''-'' @ tcname @ ''-'' @ tcver @ appversuffix) @
              ''\<newline>''\<rparr>)
      else
        (let easyconfig = appname @ ''-'' @ appver @ appversuffix @ ''.eb'';
             def_file = ''Singularity.'' @ appname @ ''-'' @ appver @ appversuffix;
             ebfile = fst (os_path_splitext easyconfig) @ ''.eb'';
             post = post @ eb_line ebfile module_scheme
         in
         \<lparr>easyconfig_file = easyconfig, def_file = def_file, post_content = post,
          environment_content = environment @
            ''module use '' @ modulepath @ ''\<newline>'' @
            ''module load '' @ os_path_join appname (appver @ appversuffix) @ ''\<newline>''\<rparr>))"

text \<open>Lines 210-214, 216-219 and 221.\<close>

definition cleanup_content :: string where
  "cleanup_content = str_join ''\<newline>''
     [''exit'',
      ''rm -rf /scratch/tmp/* /scratch/build /scratch/sources /scratch/ebfiles_repo'']"

definition runscript_content :: string where
  "runscript_content = str_join ''\<newline>''
     [''%runscript'', ''eval '' @ [CHR 0x22] @ ''$@'' @ [CHR 0x22]]"

definition label_content :: string where
  "label_content = ''\<newline>%labels \<newline>''"

text \<open>The sections of the recipe as lines 131-221 build them, before they are
  concatenated.\<close>

record recipe =
  recipe_file :: string
  easyconfig_name :: string
  bootstrap_section :: string
  post_section :: string
  runscript_section :: string
  environment_section :: string
  label_section :: string

definition recipe_sections ::
  "easyconfig \<Rightarrow> string \<Rightarrow> string \<Rightarrow> string list \<Rightarrow> error + recipe" where
  "recipe_sections ec module_scheme bootstrap_type bootstrap_list =
     (case bootstrap_content bootstrap_type bootstrap_list of
        Inl e \<Rightarrow> Inl e
      | Inr bootstrap \<Rightarrow>
          (let modulepath = modulepath_of module_scheme in
           case install_osdeps (ec_osdependencies ec) ''\<newline>%post\<newline>'' of
             Inl e \<Rightarrow> Inl e
           | Inr post \<Rightarrow>
               (let post = post @ ''pip install -U easybuild \<newline>'';
                    post = post @ ''su - easybuild \<newline>'';
                    environment = ''\<newline>%environment\<newline>source /etc/profile\<newline>'';
                    b = toolchain_sections ec module_scheme modulepath post environment
                in Inr \<lparr>recipe_file = def_file b,
                         easyconfig_name = easyconfig_file b,
                         bootstrap_section = bootstrap,
                         post_section = post_content b @ cleanup_content,
                         runscript_section = runscript_content,
                         environment_section = environment_content b,
                         label_section = label_content\<rparr>)))"

text \<open>Line 224: the definition file's text.\<close>

definition recipe_text :: "recipe \<Rightarrow> string" where
  "recipe_text r =
     bootstrap_section r @ post_section r @ runscript_section r @
     environment_section r @ label_section r"

text \<open>Lines 233-241: the name of the container, before the format's extension.\<close>

definition container_name_of :: "string option \<Rightarrow> string \<Rightarrow> string" where
  "container_name_of image_name def_file_name =
     (case image_name of
        Some given \<Rightarrow> given
      | None \<Rightarrow>
          (let pos = str_find def_file_name CHR ''.'' in slice_from def_file_name (pos + 1)))"

text \<open>Lines 243-269: one branch per image format; any other format does nothing.\<close>

definition build_container ::
  "build_options \<Rightarrow> string \<Rightarrow> string \<Rightarrow> world \<Rightarrow> world \<times> (error + unit)" where
  "build_container opts singularity_writepath def_file_name w =
     (let container_name = container_name_of (imagename opts) def_file_name in
      if imageformat opts = Some ''squashfs'' then
        (let container_name = container_name @ ''.simg'' in
         if os_path_exists w container_name then
           (w, Inl (EasyBuildError (''Image already exist at '' @
                      os_path_join singularity_writepath container_name)))
         else
           (os_system (''sudo singularity build '' @ container_name @ '' '' @ def_file_name) w,
            Inr ()))
      else if imageformat opts = Some ''ext3'' then
        (let container_name = container_name @ ''.img'' in
         if os_path_exists w container_name then
           (w, Inl (EasyBuildError (''Image already exist at '' @
                      os_path_join singularity_writepath container_name)))
         else
           (os_system (''sudo singularity build --writable '' @ container_name @ '' '' @
                       def_file_name) w,
            Inr ()))
      else if imageformat opts = Some ''sandbox'' then
        (if os_path_exists w container_name then
           (w, Inl (EasyBuildError (''Image already exist at '' @
                      os_path_join singularity_writepath container_name)))
         else
           (os_system (''sudo singularity build --sandbox '' @ container_name @ '' '' @
                       def_file_name) w,
            Inr ()))
      else (w, Inr ()))"

text \<open>Lines 225-269: the recipe is written into the recipe directory, and the image is
  built when asked for.\<close>

definition write_and_build ::
  "build_options \<Rightarrow> recipe \<Rightarrow> world \<Rightarrow> world \<times> (error + unit)" where
  "write_and_build opts r w =
     (let singularity_writepath = singularity_path opts;
          w = change_dir singularity_writepath w;
          w = write_file (recipe_file r) (recipe_text r) w;
          w = print_msg (''Writing Singularity Definition File: '' @
                         os_path_join singularity_writepath (recipe_file r)) w
      in if buildimage opts then build_container opts singularity_writepath (recipe_file r) w
         else (w, Inr ()))"

text \<open>Lines 80-224: everything the function does before it touches the file system. The
  recipe directory must be an existing directory, the bootstrap option is checked, the
  first easyconfig is read and the sections are built. \<open>singularity_bootstrap\<close> is
  \<^verbatim>\<open>options.singularity_bootstrap\<close>.\<close>

definition compose_recipe ::
  "build_options \<Rightarrow> easyconfig list \<Rightarrow> string option \<Rightarrow> world \<Rightarrow> error + recipe" where
  "compose_recipe opts ordered_ecs singularity_bootstrap w =
     (let sing_path = singularity_path opts in
      if \<not> (os_path_exists w sing_path \<and> os_path_isdir w sing_path) then
        Inl (EasyBuildError (''Invalid path: '' @ sing_path @
               '' please specify a valid directory path''))
      else
        (case check_bootstrap singularity_bootstrap of
           Inl e \<Rightarrow> Inl e
         | Inr (bootstrap_type, bootstrap_list) \<Rightarrow>
             (case list_get ordered_ecs 0 of
                Inl e \<Rightarrow> Inl e
              | Inr ec \<Rightarrow>
                  (case check_bootstrap_image w bootstrap_type bootstrap_list of
                     Inl e \<Rightarrow> Inl e
                   | Inr u \<Rightarrow>
                       recipe_sections ec (module_naming_scheme opts)
                         bootstrap_type bootstrap_list))))"

text \<open>The whole function: an exception raised while composing leaves the world as it
  was.\<close>

definition generate_singularity_recipe ::
  "build_options \<Rightarrow> easyconfig list \<Rightarrow> string option \<Rightarrow> world \<Rightarrow> world \<times> (error + unit)" where
  "generate_singularity_recipe opts ordered_ecs singularity_bootstrap w =
     (case compose_recipe opts ordered_ecs singularity_bootstrap w of
        Inl e \<Rightarrow> (w, Inl e)
      | Inr r \<Rightarrow> write_and_build opts r w)"

subsection \<open>check_singularity (lines 272-291)\<close>

text \<open>The version test of lines 287-290 stands in the \<^verbatim>\<open>elif\<close> block after its
  \<^verbatim>\<open>raise\<close>, so no run reaches it: the version read on line 283 is bound and never
  looked at.\<close>

definition check_singularity ::
  "build_options \<Rightarrow> easyconfig list \<Rightarrow> string option \<Rightarrow> world \<Rightarrow> world \<times> (error + unit)" where
  "check_singularity opts ordered_ecs singularity_bootstrap w =
     (case which_singularity w of
        Some path_to_singularity_cmd \<Rightarrow>
          if path_to_singularity_cmd \<noteq> [] then
            (let w = print_msg (''Singularity tool found at '' @ path_to_singularity_cmd) w;
                 singularity_version = list_get (str_split (version_stdout w) CHR ''-'') 0
             in generate_singularity_recipe opts ordered_ecs singularity_bootstrap w)
          else if buildimage opts then
            (w, Inl (EasyBuildError ''Singularity not found in your system''))
          else generate_singularity_recipe opts ordered_ecs singularity_bootstrap w
      | None \<Rightarrow>
          if buildimage opts then
            (w, Inl (EasyBuildError ''Singularity not found in your system''))
          else generate_singularity_recipe opts ordered_ecs singularity_bootstrap w)"

subsection \<open>The scenarios of the specification\<close>

text \<open>Scenario A: bzip2 1.0.6 without a toolchain. Scenario B: R 3.3.1 built with
  intel 2017a.\<close>

definition scenario_bzip2 :: easyconfig where
  "scenario_bzip2 =
     \<lparr>ec_name = ''bzip2'', ec_version = ''1.0.6'', ec_versionsuffix = '''',
      ec_toolchain_name = ''dummy'', ec_toolchain_version = ''dummy'',
      ec_osdependencies = []\<rparr>"

definition scenario_R :: easyconfig where
  "scenario_R =
     \<lparr>ec_name = ''R'', ec_version = ''3.3.1'', ec_versionsuffix = '''',
      ec_toolchain_name = ''intel'', ec_toolchain_version = ''2017a'',
      ec_osdependencies = []\<rparr>"

text \<open>A host with the recipe directory \<open>/out\<close>, a file \<open>/x.tar\<close> and a Singularity 2.3
  on the search path; squashfs images are asked for.\<close>

definition scenario_world :: world where
  "scenario_world =
     \<lparr>cwd = ''/home/user'', existing = {''/out'', ''/x.tar''}, directories = {''/out''},
      which_singularity = Some ''/usr/bin/singularity'',
      version_stdout = ''2.3-dist\<newline>'',
      written = [], messages = [], commands = []\<rparr>"

definition scenario_options :: build_options where
  "scenario_options =
     \<lparr>imagename = None, imageformat = Some ''squashfs'', buildimage = True,
      singularity_path = ''/out'', module_naming_scheme = ''EasyBuildMNS''\<rparr>"

section \<open>Facts about the primitives\<close>

lemma first_index_None_iff: "first_index xs c = None \<longleftrightarrow> c \<notin> set xs"
  by (induction xs) auto

lemma first_index_less: "first_index xs c = Some i \<Longrightarrow> i < length xs"
  by (induction xs arbitrary: i) (auto split: if_splits)

lemma first_index_append_found:
  "first_index xs c = Some i \<Longrightarrow> first_index (xs @ ys) c = Some i"
  by (induction xs arbitrary: i) (auto split: if_splits)

lemma first_index_append_notin:
  "c \<notin> set xs \<Longrightarrow>
   first_index (xs @ ys) c = map_option (\<lambda>j. length xs + j) (first_index ys c)"
proof (induction xs)
  case Nil
  show ?case by (cases "first_index ys c") simp_all
next
  case (Cons x xs)
  then show ?case by (cases "first_index ys c") auto
qed

lemma str_rfind_less: "str_rfind p c < int (length p)"
  by (auto simp: str_rfind_def split: option.splits)

lemma str_rfind_lower: "- 1 \<le> str_rfind p c"
  by (auto simp: str_rfind_def split: option.splits dest!: first_index_less)

lemma str_rfind_append_notin:
  assumes "c \<notin> set b"
  shows "str_rfind (a @ b) c = str_rfind a c"
proof -
  have "first_index (rev b @ rev a) c =
          map_option (\<lambda>j. length (rev b) + j) (first_index (rev a) c)"
    using assms by (intro first_index_append_notin) simp
  then show ?thesis
    by (cases "first_index (rev a) c") (simp_all add: str_rfind_def)
qed

lemma str_rfind_append_in:
  assumes "c \<in> set b"
  shows "str_rfind (a @ b) c = int (length a) + str_rfind b c"
proof -
  from assms have "first_index (rev b) c \<noteq> None"
    by (simp add: first_index_None_iff)
  then obtain i where i: "first_index (rev b) c = Some i" by auto
  then have "first_index (rev b @ rev a) c = Some i"
    by (rule first_index_append_found)
  with i show ?thesis by (simp add: str_rfind_def)
qed

lemma splitext_scan_iff:
  "splitext_scan p i d \<longleftrightarrow> (\<exists>k. i \<le> k \<and> k < d \<and> p ! k \<noteq> CHR ''.'')"
proof (induction p i d rule: splitext_scan.induct)
  case (1 p i d)
  show ?case
  proof (cases "i < d")
    case False
    then show ?thesis by (subst splitext_scan.simps) auto
  next
    case True
    show ?thesis
    proof (cases "p ! i \<noteq> CHR ''.''")
      case True
      with \<open>i < d\<close> show ?thesis by (subst splitext_scan.simps) auto
    next
      case False
      then have eq: "p ! i = CHR ''.''" by simp
      have "splitext_scan p i d = splitext_scan p (Suc i) d"
        using \<open>i < d\<close> eq by (subst splitext_scan.simps) simp
      also have "\<dots> \<longleftrightarrow> (\<exists>k. Suc i \<le> k \<and> k < d \<and> p ! k \<noteq> CHR ''.'')"
        using "1.IH" \<open>i < d\<close> eq by simp
      also have "\<dots> \<longleftrightarrow> (\<exists>k. i \<le> k \<and> k < d \<and> p ! k \<noteq> CHR ''.'')"
        using eq by (metis Suc_leD Suc_leI le_neq_implies_less)
      finally show ?thesis .
    qed
  qed
qed

lemma splitext_eb:
  assumes "CHR ''/'' \<notin> set r"
  shows "os_path_splitext (n @ ''-'' @ r @ ''.eb'') = (n @ ''-'' @ r, ''.eb'')"
proof -
  let ?p = "n @ ''-'' @ r @ ''.eb''"
  have dot: "str_rfind ?p CHR ''.'' = int (length n) + 1 + int (length r)"
    using str_rfind_append_in [of "CHR ''.''" "''.eb''" "n @ ''-'' @ r"]
    by (simp add: str_rfind_def)
  have sep: "str_rfind ?p CHR ''/'' = str_rfind n CHR ''/''"
    using str_rfind_append_notin [of "CHR ''/''" "''-'' @ r @ ''.eb''" n] assms by simp
  have sep_less: "str_rfind n CHR ''/'' < int (length n)" by (rule str_rfind_less)
  have sep_low: "- 1 \<le> str_rfind n CHR ''/''" by (rule str_rfind_lower)
  have scan: "splitext_scan ?p (nat (str_rfind n CHR ''/'' + 1)) (nat (int (length n) + 1 + int (length r)))"
    unfolding splitext_scan_iff
  proof (intro exI conjI)
    show "nat (str_rfind n CHR ''/'' + 1) \<le> length n" using sep_less sep_low by linarith
    show "length n < nat (int (length n) + 1 + int (length r))" by linarith
    show "?p ! length n \<noteq> CHR ''.''" by (simp add: nth_append)
  qed
  have nat_dot: "nat (int (length n) + 1 + int (length r)) = length (n @ ''-'' @ r)" by simp
  show ?thesis
    unfolding os_path_splitext_def Let_def dot sep
    using scan sep_less
    apply (simp only: nat_dot)
    apply simp
    done
qed

lemma install_flat_acc:
  "install_flat ds (acc @ post) = map_sum id (\<lambda>s. acc @ s) (install_flat ds post)"
  by (induction ds post rule: install_flat.induct) auto

lemma install_alternatives_eq:
  "install_alternatives alts post = post @ concat (map yum_line alts)"
  by (induction alts arbitrary: post) auto

lemma install_flat_packages:
  "install_flat (map Package names) post = Inr (post @ concat (map yum_line names))"
  by (induction names arbitrary: post) auto

lemma install_flat_tuple:
  "install_flat (map Package names @ Alternatives alts # rest) post =
     Inl (TypeError ''cannot concatenate 'str' and 'tuple' objects'')"
  by (induction names arbitrary: post) auto

lemma bootstrap_format_error_text:
  "bootstrap_format_error =
     ''Invalid Format for --singularity-bootstrap, must be one of the following:\<newline>\<newline>--singularity-bootstrap localimage:/path/to/image\<newline>--singularity-bootstrap shub:<image>:<tag>\<newline>--singularity-bootstrap docker:<image>:<tag>''"
  by (simp add: bootstrap_format_error_def)

lemma str_split_nonempty: "str_split s sep \<noteq> []"
  by (induction s) (auto split: list.splits)

lemma singularity_bootstrap_types:
  "set SINGULARITY_BOOTSTRAP_TYPES = {''localimage'', ''shub'', ''docker''}"
  by (auto simp: SINGULARITY_BOOTSTRAP_TYPES_def DOCKER_def LOCALIMAGE_def SHUB_def)

lemma check_bootstrap_Some:
  assumes "s \<noteq> []"
  shows "check_bootstrap (Some s) =
      (if length (str_split s CHR '':'') > 3 \<or> length (str_split s CHR '':'') \<le> 1
       then Inl (EasyBuildError bootstrap_format_error)
       else if hd (str_split s CHR '':'') \<notin> {''localimage'', ''shub'', ''docker''}
       then Inl (EasyBuildError ''bootstrap type must be one of docker, localimage, shub'')
       else Inr (hd (str_split s CHR '':''), str_split s CHR '':''))"
proof -
  have msg: "str_join '', '' SINGULARITY_BOOTSTRAP_TYPES = ''docker, localimage, shub''"
    by (simp add: SINGULARITY_BOOTSTRAP_TYPES_def DOCKER_def LOCALIMAGE_def SHUB_def)
  have get0: "list_get (str_split s CHR '':'') 0 = Inr (hd (str_split s CHR '':''))"
    using str_split_nonempty [of s "CHR '':''"] by (simp add: list_get_def hd_conv_nth)
  show ?thesis
    using assms by (simp add: check_bootstrap_def Let_def get0 msg singularity_bootstrap_types)
qed

lemma check_bootstrap_Inr:
  assumes "check_bootstrap sb = Inr (t, l)"
  shows "(length l = 2 \<or> length l = 3) \<and> t = hd l \<and> t \<in> {''localimage'', ''shub'', ''docker''}"
proof (cases sb)
  case None
  with assms show ?thesis by (simp add: check_bootstrap_def)
next
  case (Some s)
  show ?thesis
  proof (cases "s = []")
    case True
    with assms Some show ?thesis by (simp add: check_bootstrap_def)
  next
    case False
    have "length l \<le> 1 \<or> 3 < length l \<or> length l = 2 \<or> length l = 3" by arith
    with assms Some show ?thesis
      unfolding Some check_bootstrap_Some [OF False]
      by (auto split: if_splits)
  qed
qed

lemma toolchain_sections_easyconfig_file:
  "easyconfig_file (toolchain_sections ec scheme modulepath post environment) =
     (if ec_toolchain_name ec \<noteq> ''dummy''
      then ec_name ec @ ''-'' @ ec_version ec @ ''-'' @ ec_toolchain_name ec @ ''-'' @
           ec_toolchain_version ec @ ec_versionsuffix ec @ ''.eb''
      else ec_name ec @ ''-'' @ ec_version ec @ ec_versionsuffix ec @ ''.eb'')"
  by (simp add: toolchain_sections_def Let_def)

lemma toolchain_sections_def_file:
  "def_file (toolchain_sections ec scheme modulepath post environment) =
     (if ec_toolchain_name ec \<noteq> ''dummy''
      then ''Singularity.'' @ ec_name ec @ ''-'' @ ec_version ec @ ''-'' @ ec_toolchain_name ec @
           ''-'' @ ec_toolchain_version ec @ ec_versionsuffix ec
      else ''Singularity.'' @ ec_name ec @ ''-'' @ ec_version ec @ ec_versionsuffix ec)"
  by (simp add: toolchain_sections_def Let_def)

lemma toolchain_sections_post_content:
  "post_content (toolchain_sections ec scheme modulepath post environment) =
     post @ eb_line
       (fst (os_path_splitext
          (easyconfig_file (toolchain_sections ec scheme modulepath post environment))) @ ''.eb'')
       scheme"
  by (simp add: toolchain_sections_def Let_def)

lemma toolchain_sections_environment_content:
  "environment_content (toolchain_sections ec scheme modulepath post environment) =
     environment @ ''module use '' @ modulepath @ ''\<newline>'' @
     (if ec_toolchain_name ec \<noteq> ''dummy''
      then (if scheme = ''HierarchicalMNS''
            then ''module load '' @
                 os_path_join (ec_toolchain_name ec) (ec_toolchain_version ec) @ ''\<newline>'' @
                 ''module load '' @
                 os_path_join (ec_name ec) (ec_version ec @ ec_versionsuffix ec) @ ''\<newline>''
            else ''module load '' @
                 os_path_join (ec_name ec)
                   (ec_version ec @ ''-'' @ ec_toolchain_name ec @ ''-'' @
                    ec_toolchain_version ec @ ec_versionsuffix ec) @ ''\<newline>'')
      else ''module load '' @
           os_path_join (ec_name ec) (ec_version ec @ ec_versionsuffix ec) @ ''\<newline>'')"
  by (simp add: toolchain_sections_def Let_def)

lemma install_osdeps_acc:
  "install_osdeps ds (acc @ post) = map_sum id (\<lambda>s. acc @ s) (install_osdeps ds post)"
proof (cases ds)
  case Nil
  then show ?thesis by (simp add: install_osdeps_def)
next
  case (Cons d rest)
  show ?thesis
  proof (cases d)
    case (Package p)
    with Cons show ?thesis
      using install_flat_acc [of ds acc post] by (simp add: install_osdeps_def)
  next
    case (Alternatives alts)
    with Cons show ?thesis
      by (simp add: install_osdeps_def install_alternatives_eq)
  qed
qed

lemma recipe_sections_Inr:
  assumes "recipe_sections ec scheme bt bl = Inr r"
  shows "\<exists>boot install.
     bootstrap_content bt bl = Inr boot \<and>
     install_osdeps (ec_osdependencies ec) [] = Inr install \<and>
     (let b = toolchain_sections ec scheme (modulepath_of scheme)
                (''\<newline>%post\<newline>'' @ install @ ''pip install -U easybuild \<newline>'' @
                 ''su - easybuild \<newline>'')
                ''\<newline>%environment\<newline>source /etc/profile\<newline>''
      in r = \<lparr>recipe_file = def_file b, easyconfig_name = easyconfig_file b,
               bootstrap_section = boot, post_section = post_content b @ cleanup_content,
               runscript_section = runscript_content,
               environment_section = environment_content b,
               label_section = label_content\<rparr>)"
proof -
  from assms obtain boot where boot: "bootstrap_content bt bl = Inr boot"
    by (cases "bootstrap_content bt bl") (simp_all add: recipe_sections_def)
  from assms boot obtain post0 where
    post0: "install_osdeps (ec_osdependencies ec) ''\<newline>%post\<newline>'' = Inr post0"
    by (cases "install_osdeps (ec_osdependencies ec) ''\<newline>%post\<newline>''")
       (simp_all add: recipe_sections_def Let_def)
  have "install_osdeps (ec_osdependencies ec) (''\<newline>%post\<newline>'' @ []) =
          map_sum id (\<lambda>s. ''\<newline>%post\<newline>'' @ s) (install_osdeps (ec_osdependencies ec) [])"
    by (rule install_osdeps_acc)
  with post0 obtain install where
    install: "install_osdeps (ec_osdependencies ec) [] = Inr install"
    and post0_eq: "post0 = ''\<newline>%post\<newline>'' @ install"
    by (cases "install_osdeps (ec_osdependencies ec) []") auto
  from assms boot post0 show ?thesis
    unfolding post0_eq
    by (intro exI [of _ boot] exI [of _ install])
       (simp add: recipe_sections_def Let_def install)
qed

lemma compose_recipe_Inr:
  assumes "compose_recipe opts ordered_ecs sb w = Inr r"
  shows "\<exists>ec rest t l.
     ordered_ecs = ec # rest \<and> check_bootstrap sb = Inr (t, l) \<and>
     check_bootstrap_image w t l = Inr () \<and>
     os_path_exists w (singularity_path opts) \<and> os_path_isdir w (singularity_path opts) \<and>
     recipe_sections ec (module_naming_scheme opts) t l = Inr r"
  using assms
  by (cases ordered_ecs)
     (auto simp: compose_recipe_def Let_def list_get_def
           split: if_splits sum.splits prod.splits)

lemma splitext_bzip2: "os_path_splitext ''bzip2-1.0.6.eb'' = (''bzip2-1.0.6'', ''.eb'')"
  using splitext_eb [of "''1.0.6''" "''bzip2''"] by simp

lemma splitext_R:
  "os_path_splitext ''R-3.3.1-intel-2017a.eb'' = (''R-3.3.1-intel-2017a'', ''.eb'')"
  using splitext_eb [of "''3.3.1-intel-2017a''" "''R''"] by simp

lemma scenario_A_recipe:
  "compose_recipe scenario_options [scenario_bzip2] (Some ''docker:ubuntu'') scenario_world =
     Inr \<lparr>recipe_file = ''Singularity.bzip2-1.0.6'',
          easyconfig_name = ''bzip2-1.0.6.eb'',
          bootstrap_section = ''BootStrap: docker\<newline>From: ubuntu\<newline>'',
          post_section = ''\<newline>%post\<newline>pip install -U easybuild \<newline>su - easybuild \<newline>eb bzip2-1.0.6.eb --robot --installpath=/app/ --prefix=/scratch --tmpdir=/scratch/tmp  --module-naming-scheme=EasyBuildMNS\<newline>exit\<newline>rm -rf /scratch/tmp/* /scratch/build /scratch/sources /scratch/ebfiles_repo'',
          runscript_section = ''%runscript\<newline>eval '' @ [CHR 0x22] @ ''$@'' @ [CHR 0x22],
          environment_section = ''\<newline>%environment\<newline>source /etc/profile\<newline>module use /app/modules/all/\<newline>module load bzip2/1.0.6\<newline>'',
          label_section = ''\<newline>%labels \<newline>''\<rparr>"
  by (simp add: compose_recipe_def scenario_options_def scenario_bzip2_def scenario_world_def
        os_path_exists_def os_path_isdir_def os_path_join_def check_bootstrap_Some
        list_get_def check_bootstrap_image_def LOCALIMAGE_def recipe_sections_def
        bootstrap_content_def image_tag_of_def modulepath_of_def install_osdeps_def
        toolchain_sections_def Let_def splitext_bzip2 eb_line_def cleanup_content_def
        runscript_content_def label_content_def)

lemma scenario_B_recipe:
  "compose_recipe (scenario_options\<lparr>module_naming_scheme := ''HierarchicalMNS''\<rparr>)
     [scenario_R] (Some ''shub:centos:7'') scenario_world =
     Inr \<lparr>recipe_file = ''Singularity.R-3.3.1-intel-2017a'',
          easyconfig_name = ''R-3.3.1-intel-2017a.eb'',
          bootstrap_section = ''BootStrap: shub\<newline>From: centos:7\<newline>'',
          post_section = ''\<newline>%post\<newline>pip install -U easybuild \<newline>su - easybuild \<newline>eb R-3.3.1-intel-2017a.eb --robot --installpath=/app/ --prefix=/scratch --tmpdir=/scratch/tmp  --module-naming-scheme=HierarchicalMNS\<newline>exit\<newline>rm -rf /scratch/tmp/* /scratch/build /scratch/sources /scratch/ebfiles_repo'',
          runscript_section = ''%runscript\<newline>eval '' @ [CHR 0x22] @ ''$@'' @ [CHR 0x22],
          environment_section = ''\<newline>%environment\<newline>source /etc/profile\<newline>module use /app/modules/all/Core\<newline>module load intel/2017a\<newline>module load R/3.3.1\<newline>'',
          label_section = ''\<newline>%labels \<newline>''\<rparr>"
  by (simp add: compose_recipe_def scenario_options_def scenario_R_def scenario_world_def
        os_path_exists_def os_path_isdir_def os_path_join_def check_bootstrap_Some
        list_get_def check_bootstrap_image_def LOCALIMAGE_def recipe_sections_def
        bootstrap_content_def image_tag_of_def modulepath_of_def install_osdeps_def
        toolchain_sections_def Let_def splitext_R eb_line_def cleanup_content_def
        runscript_content_def label_content_def)



lemma recipe_sections_names:
  assumes "recipe_sections ec scheme bt bl = Inr r"
  shows "easyconfig_name r =
           (if ec_toolchain_name ec \<noteq> ''dummy''
            then ec_name ec @ ''-'' @ ec_version ec @ ''-'' @ ec_toolchain_name ec @ ''-'' @
                 ec_toolchain_version ec @ ec_versionsuffix ec @ ''.eb''
            else ec_name ec @ ''-'' @ ec_version ec @ ec_versionsuffix ec @ ''.eb'')"
    and "recipe_file r =
           (if ec_toolchain_name ec \<noteq> ''dummy''
            then ''Singularity.'' @ ec_name ec @ ''-'' @ ec_version ec @ ''-'' @
                 ec_toolchain_name ec @ ''-'' @ ec_toolchain_version ec @ ec_versionsuffix ec
            else ''Singularity.'' @ ec_name ec @ ''-'' @ ec_version ec @ ec_versionsuffix ec)"
    and "environment_section r =
           ''\<newline>%environment\<newline>source /etc/profile\<newline>'' @
           ''module use '' @ modulepath_of scheme @ ''\<newline>'' @
           (if ec_toolchain_name ec \<noteq> ''dummy''
            then (if scheme = ''HierarchicalMNS''
                  then ''module load '' @
                       os_path_join (ec_toolchain_name ec) (ec_toolchain_version ec) @
                       ''\<newline>'' @
                       ''module load '' @
                       os_path_join (ec_name ec) (ec_version ec @ ec_versionsuffix ec) @
                       ''\<newline>''
                  else ''module load '' @
                       os_path_join (ec_name ec)
                         (ec_version ec @ ''-'' @ ec_toolchain_name ec @ ''-'' @
                          ec_toolchain_version ec @ ec_versionsuffix ec) @ ''\<newline>'')
            else ''module load '' @
                 os_path_join (ec_name ec) (ec_version ec @ ec_versionsuffix ec) @
                 ''\<newline>'')"
proof -
  from recipe_sections_Inr [OF assms] obtain boot install where
    r: "r = \<lparr>recipe_file = def_file
               (toolchain_sections ec scheme (modulepath_of scheme)
                  (''\<newline>%post\<newline>'' @ install @ ''pip install -U easybuild \<newline>'' @
                   ''su - easybuild \<newline>'')
                  ''\<newline>%environment\<newline>source /etc/profile\<newline>''),
             easyconfig_name = easyconfig_file
               (toolchain_sections ec scheme (modulepath_of scheme)
                  (''\<newline>%post\<newline>'' @ install @ ''pip install -U easybuild \<newline>'' @
                   ''su - easybuild \<newline>'')
                  ''\<newline>%environment\<newline>source /etc/profile\<newline>''),
             bootstrap_section = boot,
             post_section = post_content
               (toolchain_sections ec scheme (modulepath_of scheme)
                  (''\<newline>%post\<newline>'' @ install @ ''pip install -U easybuild \<newline>'' @
                   ''su - easybuild \<newline>'')
                  ''\<newline>%environment\<newline>source /etc/profile\<newline>'') @ cleanup_content,
             runscript_section = runscript_content,
             environment_section = environment_content
               (toolchain_sections ec scheme (modulepath_of scheme)
                  (''\<newline>%post\<newline>'' @ install @ ''pip install -U easybuild \<newline>'' @
                   ''su - easybuild \<newline>'')
                  ''\<newline>%environment\<newline>source /etc/profile\<newline>''),
             label_section = label_content\<rparr>"
    unfolding Let_def by blast
  show "easyconfig_name r =
           (if ec_toolchain_name ec \<noteq> ''dummy''
            then ec_name ec @ ''-'' @ ec_version ec @ ''-'' @ ec_toolchain_name ec @ ''-'' @
                 ec_toolchain_version ec @ ec_versionsuffix ec @ ''.eb''
            else ec_name ec @ ''-'' @ ec_version ec @ ec_versionsuffix ec @ ''.eb'')"
    by (subst r) (simp only: recipe.simps toolchain_sections_easyconfig_file)
  show "recipe_file r =
           (if ec_toolchain_name ec \<noteq> ''dummy''
            then ''Singularity.'' @ ec_name ec @ ''-'' @ ec_version ec @ ''-'' @
                 ec_toolchain_name ec @ ''-'' @ ec_toolchain_version ec @ ec_versionsuffix ec
            else ''Singularity.'' @ ec_name ec @ ''-'' @ ec_version ec @ ec_versionsuffix ec)"
    by (subst r) (simp only: recipe.simps toolchain_sections_def_file)
  show "environment_section r =
           ''\<newline>%environment\<newline>source /etc/profile\<newline>'' @
           ''module use '' @ modulepath_of scheme @ ''\<newline>'' @
           (if ec_toolchain_name ec \<noteq> ''dummy''
            then (if scheme = ''HierarchicalMNS''
                  then ''module load '' @
                       os_path_join (ec_toolchain_name ec) (ec_toolchain_version ec) @
                       ''\<newline>'' @
                       ''module load '' @
                       os_path_join (ec_name ec) (ec_version ec @ ec_versionsuffix ec) @
                       ''\<newline>''
                  else ''module load '' @
                       os_path_join (ec_name ec)
                         (ec_version ec @ ''-'' @ ec_toolchain_name ec @ ''-'' @
                          ec_toolchain_version ec @ ec_versionsuffix ec) @ ''\<newline>'')
            else ''module load '' @
                 os_path_join (ec_name ec) (ec_version ec @ ec_versionsuffix ec) @
                 ''\<newline>'')"
    by (subst r) (simp only: recipe.simps toolchain_sections_environment_content)
qed



lemma first_index_dropWhile:
  "first_index d ch = Some i \<Longrightarrow> drop (Suc i) d = tl (dropWhile (\<lambda>c. c \<noteq> ch) d)"
  by (induction d arbitrary: i) (auto split: if_splits)

lemma container_name_of_None:
  "container_name_of None d =
     (if CHR ''.'' \<in> set d then tl (dropWhile (\<lambda>c. c \<noteq> CHR ''.'') d) else d)"
proof (cases "first_index d CHR ''.''")
  case None
  then have "CHR ''.'' \<notin> set d" by (simp add: first_index_None_iff)
  with None show ?thesis
    by (simp add: container_name_of_def str_find_def slice_from_def)
next
  case (Some i)
  then have "CHR ''.'' \<in> set d"
    using first_index_None_iff [of d "CHR ''.''"] by auto
  moreover have "nat (int i + 1) = Suc i" by simp
  ultimately show ?thesis
    using Some first_index_dropWhile [OF Some]
    by (simp add: container_name_of_def str_find_def slice_from_def)
qed

lemma written_world:
  "cwd (print_msg msg (write_file path txt (change_dir dir w))) = os_path_join (cwd w) dir"
  "existing (print_msg msg (write_file path txt (change_dir dir w))) =
     insert (os_path_join (os_path_join (cwd w) dir) path) (existing w)"
  "commands (print_msg msg (write_file path txt (change_dir dir w))) = commands w"
  by (simp_all add: print_msg_def write_file_def change_dir_def)


lemma compose_recipe_more_files:
  assumes "compose_recipe opts ecs sb w = Inr r"
    and "existing w \<subseteq> existing w'" and "cwd w' = cwd w" and "directories w' = directories w"
  shows "compose_recipe opts ecs sb w' = Inr r"
proof -
  have ex: "os_path_exists w p \<Longrightarrow> os_path_exists w' p" for p
    using assms(2,3) by (auto simp: os_path_exists_def)
  have dir: "os_path_isdir w' p = os_path_isdir w p" for p
    using assms(3,4) by (simp add: os_path_isdir_def)
  have img: "check_bootstrap_image w t l = Inr () \<Longrightarrow> check_bootstrap_image w' t l = Inr ()"
    for t l
    by (auto simp: check_bootstrap_image_def Let_def dest: ex split: sum.splits if_splits)
  from compose_recipe_Inr [OF assms(1)] obtain ec rest t l where
    "ecs = ec # rest" "check_bootstrap sb = Inr (t, l)" "check_bootstrap_image w t l = Inr ()"
    "os_path_exists w (singularity_path opts)" "os_path_isdir w (singularity_path opts)"
    "recipe_sections ec (module_naming_scheme opts) t l = Inr r"
    by blast
  then show ?thesis
    using img [of t l] ex [of "singularity_path opts"] dir [of "singularity_path opts"]
    by (simp add: compose_recipe_def Let_def list_get_def)
qed

lemma build_container_runs:
  assumes "(imageformat opts, flag, suffix) \<in>
             {(Some ''squashfs'', [], ''.simg''), (Some ''ext3'', ''--writable '', ''.img''),
              (Some ''sandbox'', ''--sandbox '', [])}"
    and "\<not> os_path_exists w (container_name_of (imagename opts) d @ suffix)"
  shows "build_container opts dir d w =
     (os_system (''sudo singularity build '' @ flag @
                 container_name_of (imagename opts) d @ suffix @ '' '' @ d) w, Inr ())"
  using assms by (auto simp: build_container_def Let_def)

lemma compose_recipe_options:
  assumes "singularity_path opts' = singularity_path opts"
    and "module_naming_scheme opts' = module_naming_scheme opts"
  shows "compose_recipe opts' ecs sb w = compose_recipe opts ecs sb w"
  unfolding compose_recipe_def assms ..

lemma compose_recipe_file_prefix:
  assumes "compose_recipe opts ordered_ecs sb w = Inr r"
  shows "\<exists>stem. recipe_file r = ''Singularity.'' @ stem"
proof -
  from compose_recipe_Inr [OF assms] obtain ec t l where
    "recipe_sections ec (module_naming_scheme opts) t l = Inr r"
    by auto
  from recipe_sections_names(2) [OF this] show ?thesis by auto
qed

lemma check_singularity_found:
  assumes "which_singularity w = Some path" and "path \<noteq> []"
  shows "check_singularity opts ecs sb w =
     generate_singularity_recipe opts ecs sb (print_msg (''Singularity tool found at '' @ path) w)"
  using assms by (simp add: check_singularity_def Let_def)

lemma check_singularity_missing:
  assumes "which_singularity w = None" and "buildimage opts"
  shows "check_singularity opts ecs sb w =
     (w, Inl (EasyBuildError ''Singularity not found in your system''))"
  using assms by (simp add: check_singularity_def)

section \<open>The claims\<close>

subsection \<open>check_bootstrap\<close>

text \<open>
  Claim C4, as amended. For every non-empty bootstrap string, with \<open>parts\<close> its fields
  between colons: fewer than two or more than three fields raise the error whose message
  lists the three accepted forms; two or three fields with a first field outside
  \<open>localimage\<close>, \<open>shub\<close>, \<open>docker\<close> raise the error naming the three types; two or three
  fields with a first field among them return that field as the bootstrap type, with the
  fields; and the check succeeds in that last case only. The empty string is turned away
  before it is split, with the message that the option must be specified.
\<close>

theorem check_bootstrap_fields:
  assumes "s \<noteq> []" and parts: "parts = str_split s CHR '':''"
  shows "(length parts < 2 \<or> 3 < length parts \<longrightarrow>
            check_bootstrap (Some s) = Inl (EasyBuildError
              ''Invalid Format for --singularity-bootstrap, must be one of the following:\<newline>\<newline>--singularity-bootstrap localimage:/path/to/image\<newline>--singularity-bootstrap shub:<image>:<tag>\<newline>--singularity-bootstrap docker:<image>:<tag>''))
       \<and> ((length parts = 2 \<or> length parts = 3) \<and> hd parts \<notin> {''localimage'', ''shub'', ''docker''} \<longrightarrow>
            check_bootstrap (Some s) = Inl (EasyBuildError
              ''bootstrap type must be one of docker, localimage, shub''))
       \<and> ((length parts = 2 \<or> length parts = 3) \<and> hd parts \<in> {''localimage'', ''shub'', ''docker''} \<longrightarrow>
            check_bootstrap (Some s) = Inr (hd parts, parts))
       \<and> ((\<exists>r. check_bootstrap (Some s) = Inr r) \<longleftrightarrow>
            (length parts = 2 \<or> length parts = 3) \<and> hd parts \<in> {''localimage'', ''shub'', ''docker''})
       \<and> check_bootstrap (Some []) =
            Inl (EasyBuildError ''--singularity-bootstrap must be specified'')"
proof -
  have len: "length parts < 2 \<or> 3 < length parts \<or> length parts = 2 \<or> length parts = 3"
    by arith
  have empty: "check_bootstrap (Some []) =
      Inl (EasyBuildError ''--singularity-bootstrap must be specified'')"
    by (simp add: check_bootstrap_def)
  show ?thesis
    unfolding parts check_bootstrap_Some [OF assms(1)] bootstrap_format_error_text [symmetric] empty
    using len [unfolded parts] by auto
qed

theorem check_bootstrap_fields_witness:
  "''docker:ubuntu:16.04'' \<noteq> [] \<and>
   str_split ''docker:ubuntu:16.04'' CHR '':'' = [''docker'', ''ubuntu'', ''16.04''] \<and>
   check_bootstrap (Some ''docker:ubuntu:16.04'') = Inr (''docker'', [''docker'', ''ubuntu'', ''16.04''])"
  using check_bootstrap_fields [of "''docker:ubuntu:16.04''" "[''docker'', ''ubuntu'', ''16.04'']"]
  by simp

theorem check_bootstrap_empty_counterexample:
  "length (str_split '''' CHR '':'') < 2 \<and>
   check_bootstrap (Some '''') = Inl (EasyBuildError ''--singularity-bootstrap must be specified'') \<and>
   check_bootstrap (Some '''') \<noteq> Inl (EasyBuildError bootstrap_format_error)"
  by (simp add: check_bootstrap_def bootstrap_format_error_def)

subsection \<open>The bootstrap section\<close>

text \<open>
  Claim C6, as amended. For every bootstrap kind the bootstrap section consists of exactly
  two lines. For \<open>localimage\<close> they are \<open>Bootstrap: localimage\<close> and \<open>From:\<close> with the
  local path; for \<open>shub\<close> and \<open>docker\<close> the first line is spelled \<open>BootStrap: <kind>\<close> and
  the second is \<open>From:\<close> with the image reference, followed by a colon and the tag when
  the option has a third field.
\<close>

theorem bootstrap_section_lines:
  assumes "compose_recipe opts ordered_ecs sb w = Inr r"
    and "check_bootstrap sb = Inr (kind, parts)"
  shows "bootstrap_section r =
     (if kind = ''localimage''
      then ''Bootstrap: localimage\<newline>'' @ ''From: '' @ parts ! 1 @ ''\<newline>''
      else ''BootStrap: '' @ kind @ ''\<newline>'' @
           ''From: '' @ parts ! 1 @ (if length parts = 3 then '':'' @ parts ! 2 else []) @
           ''\<newline>'')"
proof -
  from compose_recipe_Inr [OF assms(1)] assms(2) obtain ec where
    rs: "recipe_sections ec (module_naming_scheme opts) kind parts = Inr r"
    by auto
  from recipe_sections_Inr [OF rs] obtain boot where
    boot: "bootstrap_content kind parts = Inr boot" and r: "bootstrap_section r = boot"
    by (auto simp: Let_def)
  from check_bootstrap_Inr [OF assms(2)] have len: "length parts = 2 \<or> length parts = 3"
    by simp
  then have get1: "list_get parts 1 = Inr (parts ! 1)"
    by (auto simp: list_get_def)
  from boot show ?thesis
    unfolding r bootstrap_content_def get1 image_tag_of_def LOCALIMAGE_def
    by (auto split: if_splits)
qed

theorem bootstrap_section_lines_witness:
  "check_bootstrap (Some ''shub:centos:7'') = Inr (''shub'', [''shub'', ''centos'', ''7'']) \<and>
   (\<exists>r. compose_recipe (scenario_options\<lparr>module_naming_scheme := ''HierarchicalMNS''\<rparr>)
          [scenario_R] (Some ''shub:centos:7'') scenario_world = Inr r \<and>
        bootstrap_section r = ''BootStrap: shub\<newline>From: centos:7\<newline>'')"
proof -
  have cb: "check_bootstrap (Some ''shub:centos:7'') = Inr (''shub'', [''shub'', ''centos'', ''7''])"
    by (simp add: check_bootstrap_Some)
  obtain r where r: "compose_recipe (scenario_options\<lparr>module_naming_scheme := ''HierarchicalMNS''\<rparr>)
          [scenario_R] (Some ''shub:centos:7'') scenario_world = Inr r"
    using scenario_B_recipe by blast
  have "bootstrap_section r = ''BootStrap: shub\<newline>From: centos:7\<newline>''"
    using bootstrap_section_lines [OF r cb] by simp
  with cb r show ?thesis by blast
qed

theorem bootstrap_header_counterexample:
  "check_bootstrap (Some ''docker:ubuntu'') = Inr (''docker'', [''docker'', ''ubuntu'']) \<and>
   bootstrap_content ''docker'' [''docker'', ''ubuntu''] =
     Inr ''BootStrap: docker\<newline>From: ubuntu\<newline>'' \<and>
   hd (str_split ''BootStrap: docker\<newline>From: ubuntu\<newline>'' CHR ''\<newline>'') \<noteq>
     ''Bootstrap: docker''"
  by (simp add: check_bootstrap_Some bootstrap_content_def list_get_def LOCALIMAGE_def
        image_tag_of_def)

subsection \<open>The post-install section\<close>

text \<open>
  Claim C5, as amended. In every generated post-install section, after the header, the
  package-install lines, the line upgrading easybuild and the line switching user, comes
  the build invocation \<open>eb <file> --robot ...\<close> with the module naming scheme, then the
  line \<open>exit\<close>, and last the cleanup line removing the scratch directories. The file of
  the build invocation is the derived easyconfig file name whenever version, toolchain and
  version suffix hold no slash.
\<close>

theorem post_section_order:
  assumes "compose_recipe opts (ec # rest) sb w = Inr r"
  shows "(\<exists>install.
            install_osdeps (ec_osdependencies ec) [] = Inr install \<and>
            post_section r =
              ''\<newline>%post\<newline>'' @ install @
              ''pip install -U easybuild \<newline>'' @
              ''su - easybuild \<newline>'' @
              ''eb '' @ fst (os_path_splitext (easyconfig_name r)) @ ''.eb'' @
              '' --robot --installpath=/app/ --prefix=/scratch --tmpdir=/scratch/tmp  --module-naming-scheme='' @
              module_naming_scheme opts @ ''\<newline>'' @
              ''exit\<newline>'' @
              ''rm -rf /scratch/tmp/* /scratch/build /scratch/sources /scratch/ebfiles_repo'')
       \<and> (CHR ''/'' \<notin> set (ec_version ec @ ec_toolchain_name ec @ ec_toolchain_version ec @
                           ec_versionsuffix ec) \<longrightarrow>
            fst (os_path_splitext (easyconfig_name r)) @ ''.eb'' = easyconfig_name r)"
proof -
  from compose_recipe_Inr [OF assms] obtain t l where
    rs: "recipe_sections ec (module_naming_scheme opts) t l = Inr r"
    by auto
  from recipe_sections_Inr [OF rs] obtain install where
    install: "install_osdeps (ec_osdependencies ec) [] = Inr install"
    and post: "post_section r =
      post_content (toolchain_sections ec (module_naming_scheme opts)
        (modulepath_of (module_naming_scheme opts))
        (''\<newline>%post\<newline>'' @ install @ ''pip install -U easybuild \<newline>'' @ ''su - easybuild \<newline>'')
        ''\<newline>%environment\<newline>source /etc/profile\<newline>'') @ cleanup_content"
    and name: "easyconfig_name r =
      easyconfig_file (toolchain_sections ec (module_naming_scheme opts)
        (modulepath_of (module_naming_scheme opts))
        (''\<newline>%post\<newline>'' @ install @ ''pip install -U easybuild \<newline>'' @ ''su - easybuild \<newline>'')
        ''\<newline>%environment\<newline>source /etc/profile\<newline>'')"
    by (auto simp: Let_def)
  have first: "post_section r =
              ''\<newline>%post\<newline>'' @ install @
              ''pip install -U easybuild \<newline>'' @
              ''su - easybuild \<newline>'' @
              ''eb '' @ fst (os_path_splitext (easyconfig_name r)) @ ''.eb'' @
              '' --robot --installpath=/app/ --prefix=/scratch --tmpdir=/scratch/tmp  --module-naming-scheme='' @
              module_naming_scheme opts @ ''\<newline>'' @
              ''exit\<newline>'' @
              ''rm -rf /scratch/tmp/* /scratch/build /scratch/sources /scratch/ebfiles_repo''"
    unfolding post toolchain_sections_post_content name [symmetric]
    by (simp add: eb_line_def cleanup_content_def)
  have second: "fst (os_path_splitext (easyconfig_name r)) @ ''.eb'' = easyconfig_name r"
    if noslash: "CHR ''/'' \<notin> set (ec_version ec @ ec_toolchain_name ec @
                   ec_toolchain_version ec @ ec_versionsuffix ec)"
  proof (cases "ec_toolchain_name ec \<noteq> ''dummy''")
    case True
    have "os_path_splitext (ec_name ec @ ''-'' @
            (ec_version ec @ ''-'' @ ec_toolchain_name ec @ ''-'' @ ec_toolchain_version ec @
             ec_versionsuffix ec) @ ''.eb'') =
          (ec_name ec @ ''-'' @
            (ec_version ec @ ''-'' @ ec_toolchain_name ec @ ''-'' @ ec_toolchain_version ec @
             ec_versionsuffix ec), ''.eb'')"
      using noslash by (intro splitext_eb) simp
    with True show ?thesis
      by (simp add: name toolchain_sections_easyconfig_file)
  next
    case False
    have "os_path_splitext (ec_name ec @ ''-'' @ (ec_version ec @ ec_versionsuffix ec) @ ''.eb'') =
          (ec_name ec @ ''-'' @ (ec_version ec @ ec_versionsuffix ec), ''.eb'')"
      using noslash by (intro splitext_eb) simp
    with False show ?thesis
      by (simp add: name toolchain_sections_easyconfig_file)
  qed
  from install first second show ?thesis by blast
qed

theorem post_section_order_witness:
  "\<exists>r. compose_recipe scenario_options [scenario_bzip2] (Some ''docker:ubuntu'')
          scenario_world = Inr r \<and>
       CHR ''/'' \<notin> set (ec_version scenario_bzip2 @ ec_toolchain_name scenario_bzip2 @
                       ec_toolchain_version scenario_bzip2 @ ec_versionsuffix scenario_bzip2) \<and>
       fst (os_path_splitext (easyconfig_name r)) @ ''.eb'' = easyconfig_name r \<and>
       post_section r =
         ''\<newline>%post\<newline>'' @ ''pip install -U easybuild \<newline>'' @ ''su - easybuild \<newline>'' @
         ''eb '' @ easyconfig_name r @
         '' --robot --installpath=/app/ --prefix=/scratch --tmpdir=/scratch/tmp  --module-naming-scheme=EasyBuildMNS\<newline>'' @
         ''exit\<newline>'' @
         ''rm -rf /scratch/tmp/* /scratch/build /scratch/sources /scratch/ebfiles_repo''"
proof -
  obtain r where r: "compose_recipe scenario_options [scenario_bzip2] (Some ''docker:ubuntu'')
          scenario_world = Inr r"
    using scenario_A_recipe by blast
  have noslash: "CHR ''/'' \<notin> set (ec_version scenario_bzip2 @ ec_toolchain_name scenario_bzip2 @
                       ec_toolchain_version scenario_bzip2 @ ec_versionsuffix scenario_bzip2)"
    by (simp add: scenario_bzip2_def)
  have install: "install_osdeps (ec_osdependencies scenario_bzip2) [] = Inr []"
    by (simp add: scenario_bzip2_def install_osdeps_def)
  have scheme: "module_naming_scheme scenario_options = ''EasyBuildMNS''"
    by (simp add: scenario_options_def)
  from post_section_order [OF r] noslash
  have eb: "fst (os_path_splitext (easyconfig_name r)) @ ''.eb'' = easyconfig_name r"
    by blast
  have eb': "fst (os_path_splitext (easyconfig_name r)) @ ''.eb'' @ tail = easyconfig_name r @ tail"
    for tail
    using arg_cong [OF eb, of "\<lambda>x. x @ tail"] by simp
  from post_section_order [OF r] install
  have ps: "post_section r =
              ''\<newline>%post\<newline>'' @ [] @
              ''pip install -U easybuild \<newline>'' @
              ''su - easybuild \<newline>'' @
              ''eb '' @ fst (os_path_splitext (easyconfig_name r)) @ ''.eb'' @
              '' --robot --installpath=/app/ --prefix=/scratch --tmpdir=/scratch/tmp  --module-naming-scheme='' @
              module_naming_scheme scenario_options @ ''\<newline>'' @
              ''exit\<newline>'' @
              ''rm -rf /scratch/tmp/* /scratch/build /scratch/sources /scratch/ebfiles_repo''"
    by auto
  have "post_section r =
         ''\<newline>%post\<newline>'' @ ''pip install -U easybuild \<newline>'' @ ''su - easybuild \<newline>'' @
         ''eb '' @ easyconfig_name r @
         '' --robot --installpath=/app/ --prefix=/scratch --tmpdir=/scratch/tmp  --module-naming-scheme=EasyBuildMNS\<newline>'' @
         ''exit\<newline>'' @
         ''rm -rf /scratch/tmp/* /scratch/build /scratch/sources /scratch/ebfiles_repo''"
    using ps unfolding scheme eb' by simp
  with r noslash eb show ?thesis by blast
qed

theorem post_section_last_line_counterexample:
  "\<not> isl (compose_recipe scenario_options [scenario_bzip2] (Some ''docker:ubuntu'')
            scenario_world) \<and>
   str_split
     (post_section (projr (compose_recipe scenario_options [scenario_bzip2]
                             (Some ''docker:ubuntu'') scenario_world)))
     CHR ''\<newline>'' =
     ['''', ''%post'', ''pip install -U easybuild '', ''su - easybuild '',
      ''eb bzip2-1.0.6.eb --robot --installpath=/app/ --prefix=/scratch --tmpdir=/scratch/tmp  --module-naming-scheme=EasyBuildMNS'',
      ''exit'',
      ''rm -rf /scratch/tmp/* /scratch/build /scratch/sources /scratch/ebfiles_repo'']"
  by (simp add: scenario_A_recipe)

subsection \<open>Derived file names and the environment section\<close>



subsection \<open>The order of the sections\<close>



subsection \<open>The shapes of the os-dependencies\<close>

text \<open>
  Claim C9. When the first os-dependency is a group of alternatives, one install line is
  emitted per alternative of that group and the elements after it are ignored. When the
  first element is a package name, every element is handled as a package name: a list of
  names gives one install line per name, and a group further down the list is not
  skipped but concatenated like a name, which raises \<open>TypeError\<close>.
\<close>

theorem install_osdeps_shapes:
  "install_osdeps (Alternatives alts # rest) post =
     Inr (post @ concat (map (\<lambda>os_package. ''yum install -y '' @ os_package @ '' || true \<newline>'') alts))
   \<and> install_osdeps (Package first # map Package names) post =
     Inr (post @ concat (map (\<lambda>os_package. ''yum install -y '' @ os_package @ '' || true \<newline>'')
                         (first # names)))
   \<and> install_osdeps (Package first # map Package names @ Alternatives alts # rest) post =
     Inl (TypeError ''cannot concatenate 'str' and 'tuple' objects'')"
proof -
  have yum: "yum_line = (\<lambda>os_package. ''yum install -y '' @ os_package @ '' || true \<newline>'')"
    by (rule ext) (simp add: yum_line_def)
  have a: "install_osdeps (Alternatives alts # rest) post =
     Inr (post @ concat (map yum_line alts))"
    by (simp add: install_osdeps_def install_alternatives_eq)
  have b: "install_osdeps (Package first # map Package names) post =
     Inr (post @ concat (map yum_line (first # names)))"
    using install_flat_packages [of "first # names" post]
    by (simp add: install_osdeps_def)
  have c: "install_osdeps (Package first # map Package names @ Alternatives alts # rest) post =
     Inl (TypeError ''cannot concatenate 'str' and 'tuple' objects'')"
    using install_flat_tuple [of "first # names" alts rest post]
    by (simp add: install_osdeps_def)
  from a b c show ?thesis unfolding yum by blast
qed

subsection \<open>Building the image\<close>



subsection \<open>The name of the image\<close>

text \<open>
  Claim C10. The name of the container before the suffix of the format is the image-name
  option itself when it is set; only when it is not set is it what follows the first dot of
  the recipe file name, that is the recipe file name without its leading \<open>Singularity.\<close>.
  When the image is built and no file of that name with the suffix is in the recipe
  directory, that name with the suffix is the image handed to \<open>singularity build\<close>.
\<close>

theorem image_name_rule:
  assumes "compose_recipe opts ordered_ecs sb w = Inr r"
    and "base = (case imagename opts of
                   Some given \<Rightarrow> given
                 | None \<Rightarrow> tl (dropWhile (\<lambda>c. c \<noteq> CHR ''.'') (recipe_file r)))"
  shows "container_name_of (imagename opts) (recipe_file r) = base
       \<and> (imagename opts = None \<longrightarrow> recipe_file r = ''Singularity.'' @ base)
       \<and> (buildimage opts \<and>
          (imageformat opts, flag, suffix) \<in>
             {(Some ''squashfs'', [], ''.simg''), (Some ''ext3'', ''--writable '', ''.img''),
              (Some ''sandbox'', ''--sandbox '', [])} \<and>
          os_path_join (os_path_join (cwd w) (singularity_path opts)) (base @ suffix) \<notin>
            insert (os_path_join (os_path_join (cwd w) (singularity_path opts)) (recipe_file r))
              (existing w) \<longrightarrow>
          snd (generate_singularity_recipe opts ordered_ecs sb w) = Inr () \<and>
          commands (fst (generate_singularity_recipe opts ordered_ecs sb w)) =
            commands w @
            [''sudo singularity build '' @ flag @ base @ suffix @ '' '' @ recipe_file r])"
proof -
  from compose_recipe_file_prefix [OF assms(1)] obtain stem where
    stem: "recipe_file r = ''Singularity.'' @ stem"
    by blast
  have name: "container_name_of (imagename opts) (recipe_file r) = base"
  proof (cases "imagename opts")
    case None
    with assms(2) show ?thesis
      using container_name_of_None [of "recipe_file r"] by (simp add: stem)
  next
    case (Some given)
    with assms(2) show ?thesis by (simp add: container_name_of_def)
  qed
  have unset: "recipe_file r = ''Singularity.'' @ base" if "imagename opts = None"
    using that assms(2) by (simp add: stem)
  define w3 where "w3 =
    print_msg (''Writing Singularity Definition File: '' @
               os_path_join (singularity_path opts) (recipe_file r))
      (write_file (recipe_file r) (recipe_text r) (change_dir (singularity_path opts) w))"
  have run: "snd (generate_singularity_recipe opts ordered_ecs sb w) = Inr () \<and>
          commands (fst (generate_singularity_recipe opts ordered_ecs sb w)) =
            commands w @
            [''sudo singularity build '' @ flag @ base @ suffix @ '' '' @ recipe_file r]"
    if build: "buildimage opts"
      and fmt: "(imageformat opts, flag, suffix) \<in>
             {(Some ''squashfs'', [], ''.simg''), (Some ''ext3'', ''--writable '', ''.img''),
              (Some ''sandbox'', ''--sandbox '', [])}"
      and free: "os_path_join (os_path_join (cwd w) (singularity_path opts)) (base @ suffix) \<notin>
            insert (os_path_join (os_path_join (cwd w) (singularity_path opts)) (recipe_file r))
              (existing w)"
  proof -
    have nex: "\<not> os_path_exists w3 (container_name_of (imagename opts) (recipe_file r) @ suffix)"
      using free unfolding name w3_def os_path_exists_def written_world by simp
    have cmds: "commands w3 = commands w"
      unfolding w3_def written_world ..
    have "generate_singularity_recipe opts ordered_ecs sb w =
            build_container opts (singularity_path opts) (recipe_file r) w3"
      using build
      by (simp add: generate_singularity_recipe_def assms(1) write_and_build_def w3_def Let_def)
    also have "\<dots> = (os_system (''sudo singularity build '' @ flag @
                 container_name_of (imagename opts) (recipe_file r) @ suffix @ '' '' @
                 recipe_file r) w3, Inr ())"
      using fmt nex by (rule build_container_runs)
    finally show ?thesis by (simp add: os_system_def cmds name)
  qed
  from name unset run show ?thesis by blast
qed

theorem image_name_rule_witness:
  "(\<exists>r. compose_recipe scenario_options [scenario_bzip2] (Some ''docker:ubuntu'')
          scenario_world = Inr r \<and>
        imagename scenario_options = None \<and>
        recipe_file r = ''Singularity.bzip2-1.0.6'' \<and>
        container_name_of (imagename scenario_options) (recipe_file r) = ''bzip2-1.0.6'' \<and>
        snd (generate_singularity_recipe scenario_options [scenario_bzip2]
               (Some ''docker:ubuntu'') scenario_world) = Inr () \<and>
        commands (fst (generate_singularity_recipe scenario_options [scenario_bzip2]
               (Some ''docker:ubuntu'') scenario_world)) =
          [''sudo singularity build bzip2-1.0.6.simg Singularity.bzip2-1.0.6''])
   \<and> (\<exists>r. compose_recipe (scenario_options\<lparr>imagename := Some ''tools''\<rparr>) [scenario_bzip2]
          (Some ''docker:ubuntu'') scenario_world = Inr r \<and>
        container_name_of (imagename (scenario_options\<lparr>imagename := Some ''tools''\<rparr>))
          (recipe_file r) = ''tools'' \<and>
        commands (fst (generate_singularity_recipe (scenario_options\<lparr>imagename := Some ''tools''\<rparr>)
               [scenario_bzip2] (Some ''docker:ubuntu'') scenario_world)) =
          [''sudo singularity build tools.simg Singularity.bzip2-1.0.6''])"
proof -
  obtain r where r: "compose_recipe scenario_options [scenario_bzip2] (Some ''docker:ubuntu'')
          scenario_world = Inr r" and rfile: "recipe_file r = ''Singularity.bzip2-1.0.6''"
    using scenario_A_recipe by auto
  have unset: "imagename scenario_options = None"
    by (simp add: scenario_options_def)
  have base: "''bzip2-1.0.6'' = (case imagename scenario_options of
                   Some given \<Rightarrow> given
                 | None \<Rightarrow> tl (dropWhile (\<lambda>c. c \<noteq> CHR ''.'') (recipe_file r)))"
    by (simp add: unset rfile)
  have pre: "buildimage scenario_options \<and>
          (imageformat scenario_options, [], ''.simg'') \<in>
             {(Some ''squashfs'', [], ''.simg''), (Some ''ext3'', ''--writable '', ''.img''),
              (Some ''sandbox'', ''--sandbox '', [])} \<and>
          os_path_join (os_path_join (cwd scenario_world) (singularity_path scenario_options))
            (''bzip2-1.0.6'' @ ''.simg'') \<notin>
            insert (os_path_join (os_path_join (cwd scenario_world)
                      (singularity_path scenario_options)) (recipe_file r))
              (existing scenario_world)"
    by (simp add: scenario_options_def scenario_world_def os_path_join_def rfile)
  from image_name_rule [OF r base, of "[]" "''.simg''"] pre
  have A: "container_name_of (imagename scenario_options) (recipe_file r) = ''bzip2-1.0.6'' \<and>
        snd (generate_singularity_recipe scenario_options [scenario_bzip2]
               (Some ''docker:ubuntu'') scenario_world) = Inr () \<and>
        commands (fst (generate_singularity_recipe scenario_options [scenario_bzip2]
               (Some ''docker:ubuntu'') scenario_world)) =
          [''sudo singularity build bzip2-1.0.6.simg Singularity.bzip2-1.0.6'']"
    by (simp add: rfile scenario_world_def)
  let ?opts = "scenario_options\<lparr>imagename := Some ''tools''\<rparr>"
  have r': "compose_recipe ?opts [scenario_bzip2] (Some ''docker:ubuntu'') scenario_world = Inr r"
    using r compose_recipe_options [of ?opts scenario_options] by simp
  have base': "''tools'' = (case imagename ?opts of
                   Some given \<Rightarrow> given
                 | None \<Rightarrow> tl (dropWhile (\<lambda>c. c \<noteq> CHR ''.'') (recipe_file r)))"
    by simp
  have pre': "buildimage ?opts \<and>
          (imageformat ?opts, [], ''.simg'') \<in>
             {(Some ''squashfs'', [], ''.simg''), (Some ''ext3'', ''--writable '', ''.img''),
              (Some ''sandbox'', ''--sandbox '', [])} \<and>
          os_path_join (os_path_join (cwd scenario_world) (singularity_path ?opts))
            (''tools'' @ ''.simg'') \<notin>
            insert (os_path_join (os_path_join (cwd scenario_world)
                      (singularity_path ?opts)) (recipe_file r))
              (existing scenario_world)"
    by (simp add: scenario_options_def scenario_world_def os_path_join_def rfile)
  from image_name_rule [OF r' base', of "[]" "''.simg''"] pre'
  have B: "container_name_of (imagename ?opts) (recipe_file r) = ''tools'' \<and>
        commands (fst (generate_singularity_recipe ?opts [scenario_bzip2]
               (Some ''docker:ubuntu'') scenario_world)) =
          [''sudo singularity build tools.simg Singularity.bzip2-1.0.6'']"
    by (simp add: rfile scenario_world_def)
  from r unset rfile A r' B show ?thesis by blast
qed

subsection \<open>The capability check\<close>

text \<open>
  Claim C1 does not hold of the code: the comparison of the version with 2.4 stands after
  the \<open>raise\<close> of the branch for a missing builder, where no run reaches it. With the
  builder on the search path, an image asked for and the reported version \<open>2.3-dist\<close>
  (version text \<open>2.3\<close>), the check raises nothing: the recipe is written and the image is
  built. The same holds for a reported text that is no number. Only the missing builder is
  turned away.
\<close>

theorem check_singularity_old_version_passes:
  "buildimage scenario_options \<and>
   which_singularity scenario_world = Some ''/usr/bin/singularity'' \<and>
   list_get (str_split (version_stdout scenario_world) CHR ''-'') 0 = Inr ''2.3'' \<and>
   snd (check_singularity scenario_options [scenario_bzip2] (Some ''docker:ubuntu'')
          scenario_world) = Inr () \<and>
   commands (fst (check_singularity scenario_options [scenario_bzip2] (Some ''docker:ubuntu'')
          scenario_world)) =
     [''sudo singularity build bzip2-1.0.6.simg Singularity.bzip2-1.0.6''] \<and>
   snd (check_singularity scenario_options [scenario_bzip2] (Some ''docker:ubuntu'')
          (scenario_world\<lparr>version_stdout := ''not a version''\<rparr>)) = Inr () \<and>
   check_singularity scenario_options [scenario_bzip2] (Some ''docker:ubuntu'')
     (scenario_world\<lparr>which_singularity := None\<rparr>) =
     (scenario_world\<lparr>which_singularity := None\<rparr>,
      Inl (EasyBuildError ''Singularity not found in your system''))"
proof -
  have build: "buildimage scenario_options"
    by (simp add: scenario_options_def)
  have found: "which_singularity scenario_world = Some ''/usr/bin/singularity''"
    by (simp add: scenario_world_def)
  have version: "list_get (str_split (version_stdout scenario_world) CHR ''-'') 0 = Inr ''2.3''"
    by (simp add: scenario_world_def list_get_def)
  have run: "snd (generate_singularity_recipe scenario_options [scenario_bzip2]
                (Some ''docker:ubuntu'') w) = Inr () \<and>
             commands (fst (generate_singularity_recipe scenario_options [scenario_bzip2]
                (Some ''docker:ubuntu'') w)) =
               [''sudo singularity build bzip2-1.0.6.simg Singularity.bzip2-1.0.6'']"
    if w: "cwd w = cwd scenario_world" "existing w = existing scenario_world"
      "directories w = directories scenario_world" "commands w = []" for w
  proof -
    have r: "compose_recipe scenario_options [scenario_bzip2] (Some ''docker:ubuntu'') w =
        compose_recipe scenario_options [scenario_bzip2] (Some ''docker:ubuntu'') scenario_world"
      using compose_recipe_more_files [of scenario_options "[scenario_bzip2]"
          "Some ''docker:ubuntu''" scenario_world _ w] w scenario_A_recipe
      by simp
    show ?thesis
      unfolding generate_singularity_recipe_def r scenario_A_recipe
      by (simp add: write_and_build_def build_container_def Let_def scenario_options_def
            container_name_of_def str_find_def slice_from_def os_path_exists_def written_world
            w scenario_world_def os_path_join_def os_system_def)
  qed
  have old: "snd (check_singularity scenario_options [scenario_bzip2] (Some ''docker:ubuntu'')
          scenario_world) = Inr () \<and>
     commands (fst (check_singularity scenario_options [scenario_bzip2] (Some ''docker:ubuntu'')
          scenario_world)) =
     [''sudo singularity build bzip2-1.0.6.simg Singularity.bzip2-1.0.6'']"
    unfolding check_singularity_found [OF found, simplified]
    by (rule run) (simp_all add: print_msg_def scenario_world_def)
  have other: "snd (check_singularity scenario_options [scenario_bzip2] (Some ''docker:ubuntu'')
          (scenario_world\<lparr>version_stdout := ''not a version''\<rparr>)) = Inr ()"
    using run [of "print_msg ''Singularity tool found at /usr/bin/singularity''
                     (scenario_world\<lparr>version_stdout := ''not a version''\<rparr>)"]
      check_singularity_found [of "scenario_world\<lparr>version_stdout := ''not a version''\<rparr>"
        "''/usr/bin/singularity''" scenario_options "[scenario_bzip2]" "Some ''docker:ubuntu''"]
    by (simp add: print_msg_def scenario_world_def)
  have missing: "check_singularity scenario_options [scenario_bzip2] (Some ''docker:ubuntu'')
     (scenario_world\<lparr>which_singularity := None\<rparr>) =
     (scenario_world\<lparr>which_singularity := None\<rparr>,
      Inl (EasyBuildError ''Singularity not found in your system''))"
    by (rule check_singularity_missing) (simp_all add: build)
  from build found version old other missing show ?thesis by blast
qed

subsection \<open>The base image of a localimage bootstrap\<close>

text \<open>
  Claim C2 does not hold of the code for the wrong extension: the name raised on line 119,
  \<open>EaasyBuildError\<close>, is not defined, so for the bootstrap \<open>localimage:/x.tar\<close> with
  \<open>/x.tar\<close> in place the run ends in a \<open>NameError\<close> and no message names the extension
  \<open>.tar\<close>. A base image that does not exist is reported with its path, as claimed.
\<close>

theorem wrong_extension_raises_name_error:
  "os_path_exists scenario_world ''/x.tar'' \<and>
   snd (os_path_splitext ''/x.tar'') = ''.tar'' \<and>
   generate_singularity_recipe scenario_options [scenario_bzip2] (Some ''localimage:/x.tar'')
     scenario_world = (scenario_world, Inl (NameError ''global name 'EaasyBuildError' is not defined'')) \<and>
   generate_singularity_recipe scenario_options [scenario_bzip2]
     (Some ''localimage:/nonexistent.img'') scenario_world =
     (scenario_world,
      Inl (EasyBuildError
             ''Singularity base image at specified path does not exist: /nonexistent.img''))"
proof -
  have there: "os_path_exists scenario_world ''/x.tar''"
    and missing: "\<not> os_path_exists scenario_world ''/nonexistent.img''"
    and dir: "os_path_exists scenario_world (singularity_path scenario_options)"
      "os_path_isdir scenario_world (singularity_path scenario_options)"
    by (simp_all add: os_path_exists_def os_path_isdir_def scenario_world_def
          scenario_options_def os_path_join_def)
  have ext: "os_path_splitext ''/x.tar'' = (''/x'', ''.tar'')"
    by (simp add: os_path_splitext_def str_rfind_def)
  have tar: "check_bootstrap (Some ''localimage:/x.tar'') =
      Inr (''localimage'', [''localimage'', ''/x.tar''])"
    and img: "check_bootstrap (Some ''localimage:/nonexistent.img'') =
      Inr (''localimage'', [''localimage'', ''/nonexistent.img''])"
    by (simp_all add: check_bootstrap_Some)
  have a: "generate_singularity_recipe scenario_options [scenario_bzip2]
     (Some ''localimage:/x.tar'') scenario_world =
     (scenario_world, Inl (NameError ''global name 'EaasyBuildError' is not defined''))"
    using there dir
    by (simp add: generate_singularity_recipe_def compose_recipe_def tar list_get_def
          check_bootstrap_image_def LOCALIMAGE_def ext)
  have b: "generate_singularity_recipe scenario_options [scenario_bzip2]
     (Some ''localimage:/nonexistent.img'') scenario_world =
     (scenario_world,
      Inl (EasyBuildError
             ''Singularity base image at specified path does not exist: /nonexistent.img''))"
    using missing dir
    by (simp add: generate_singularity_recipe_def compose_recipe_def img list_get_def
          check_bootstrap_image_def LOCALIMAGE_def)
  from there ext a b show ?thesis by simp
qed

end
